theory Spec2Isabelle
  imports Main "HOL-Library.Word" "HOL-Library.Monad_Syntax"
begin

unbundle bit_operations_syntax

section \<open>The allocator of mm.c as HOL functions\<close>

text \<open>
  The heap of mm.c is an array of 4-byte words. A pointer \<open>word_t *\<close> is modelled by its
  distance from \<open>heap_start\<close> in words: \<open>None\<close> is \<open>NULL\<close> and \<open>Some k\<close> is
  \<open>heap_start + k\<close>, so the empty-bucket sentinel \<open>heap_start - 1\<close> is \<open>Some (-1)\<close>.
  \<open>word_t\<close> is \<open>int32_t\<close> (a 32-bit word read with \<open>sint\<close>), \<open>size_t\<close> and pointers are
  64 bits wide. Every operation that can dereference \<open>NULL\<close>, fail an \<open>assert\<close>, walk a
  list forever, use a value that is no pointer into the heap or overrun the heap returns an
  option, \<open>None\<close> meaning that the C program does not return a result.
\<close>

type_synonym word_t = "32 word"
type_synonym size_t = "64 word"
type_synonym ptr = "int option"

definition WSIZE :: size_t where
  "WSIZE = 4"

definition N_BUCKETS :: int where
  "N_BUCKETS = 10"

text \<open>
  Modelled from the spec: the macro \<open>ALIGNMENT\<close> comes from mm.h, which is not among the
  sources; the spec and the header comment of mm.c give the alignment quantum as 16 bytes.
\<close>

definition ALIGNMENT :: int where
  "ALIGNMENT = 16"

definition FREE :: word_t where
  "FREE = 0"

definition USED :: word_t where
  "USED = 1"

definition PREVFREE :: word_t where
  "PREVFREE = 2"

record heap =
  mem :: "int \<Rightarrow> word_t"
  heap_epilogue :: int
  last_blk :: ptr
  segregated_list :: "ptr list"
  table_base :: nat
  past_table :: size_t
  heap_start :: nat
  brk :: nat
  brk_limit :: nat

text \<open>
  \<open>mem s k\<close> is the word at \<open>heap_start + k\<close>; \<open>heap_start s\<close>, \<open>brk s\<close>,
  \<open>brk_limit s\<close> and \<open>table_base s\<close> are byte addresses. The C variable
  \<open>segregated_list\<close> is a pointer to the bucket table: \<open>table_base s\<close> is the address it
  holds and \<open>segregated_list s\<close> are the \<open>N_BUCKETS\<close> entries stored there. \<open>past_table s\<close>
  is the content of the eight bytes that follow the table as the provider handed them out;
  the allocator writes none of them as padding, but those at or above \<open>heap_start\<close> are
  heap words (see \<open>past_raw\<close> below). \<open>last_blk\<close> is the variable \<open>last\<close> of mm.c.
\<close>

subsection \<open>The backing memory provider\<close>

text \<open>
  Modelled from the spec: \<open>mem_sbrk\<close> belongs to memlib, which is not among the sources.
  The spec's contract is \<open>sbrk(delta_bytes) \<rightarrow> old_break | fail\<close>: it extends the heap by
  \<open>delta_bytes\<close> and returns the address at which the new bytes begin. The provider fails
  when the request would pass \<open>brk_limit\<close>.
\<close>

definition mem_sbrk :: "heap \<Rightarrow> size_t \<Rightarrow> (nat \<times> heap) option" where
  "mem_sbrk s incr =
     (if brk s + unat incr \<le> brk_limit s
      then Some (brk s, s\<lparr>brk := brk s + unat incr\<rparr>)
      else None)"

subsection \<open>Boundary tags\<close>

definition round_up :: "size_t \<Rightarrow> size_t" where
  "round_up sz = (sz + word_of_int ALIGNMENT - 1) AND (- word_of_int ALIGNMENT)"

definition PUT :: "heap \<Rightarrow> int \<Rightarrow> word_t \<Rightarrow> heap" where
  "PUT s p val = s\<lparr>mem := (mem s)(p := val)\<rparr>"

definition bt_size :: "heap \<Rightarrow> int \<Rightarrow> word_t" where
  "bt_size s bt = mem s bt AND NOT (USED OR PREVFREE)"

definition bt_used :: "heap \<Rightarrow> int \<Rightarrow> word_t" where
  "bt_used s bt = mem s bt AND USED"

definition bt_get_prevfree :: "heap \<Rightarrow> int \<Rightarrow> word_t" where
  "bt_get_prevfree s bt = mem s bt AND PREVFREE"

definition bt_clr_prevfree :: "heap \<Rightarrow> ptr \<Rightarrow> heap" where
  "bt_clr_prevfree s bt =
     (case bt of None \<Rightarrow> s | Some b \<Rightarrow> PUT s b (mem s b AND NOT PREVFREE))"

definition bt_set_prevfree :: "heap \<Rightarrow> int \<Rightarrow> heap" where
  "bt_set_prevfree s bt = PUT s bt (mem s bt OR PREVFREE)"

definition bt_payload :: "int \<Rightarrow> int" where
  "bt_payload bt = bt + 1"

definition bt_footer :: "heap \<Rightarrow> int \<Rightarrow> int" where
  "bt_footer s bt = bt + sint (bt_size s bt) - 1"

definition bt_next :: "heap \<Rightarrow> int \<Rightarrow> ptr" where
  "bt_next s bt =
     (let next = bt_footer s bt + 1
      in if next = heap_epilogue s then None else Some next)"

definition bt_prev :: "heap \<Rightarrow> int \<Rightarrow> ptr" where
  "bt_prev s bt =
     (if bt_get_prevfree s bt \<noteq> 0
      then Some (bt - sint (bt_size s (bt - 1)))
      else None)"

definition bt_make :: "heap \<Rightarrow> int \<Rightarrow> word_t \<Rightarrow> word_t \<Rightarrow> heap" where
  "bt_make s bt words flags =
     (let s1 = PUT s bt (words OR flags)
      in case bt_next s1 bt of
           Some n \<Rightarrow>
             if bt_used s1 bt \<noteq> 0 then bt_clr_prevfree s1 (Some n)
             else let s2 = bt_set_prevfree s1 n
                  in PUT s2 (bt_footer s2 bt) (words OR flags)
         | None \<Rightarrow> PUT s1 (bt_footer s1 bt) (words OR flags))"

subsection \<open>Initialisation\<close>

text \<open>
  \<open>init_padding\<close> is the expression
  \<open>(remainder > 12) ? 16 - remainder - 12 : 12 - remainder\<close> of \<open>mm_init\<close>, computed in
  \<open>size_t\<close> as the C code does.
\<close>

definition init_padding :: "size_t \<Rightarrow> size_t" where
  "init_padding remainder = (if remainder > 12 then 16 - remainder - 12 else 12 - remainder)"

text \<open>
  \<open>mm_init\<close> returns the C return value (0 or -1) with the new state. The result of the
  first \<open>mem_sbrk\<close> is assigned to the variable \<open>segregated_list\<close>. The fourth
  \<open>mem_sbrk\<close> is not checked by the code; when it fails the store through its result does
  not return.
\<close>

definition mm_init :: "heap \<Rightarrow> (int \<times> heap) option" where
  "mm_init s =
     (case mem_sbrk s (word_of_int N_BUCKETS * 8) of
        None \<Rightarrow> Some (-1, s)
      | Some (table, s0) \<Rightarrow>
          let s1 = s0\<lparr>table_base := table\<rparr>
          in
     (case mem_sbrk s1 0 of
        None \<Rightarrow> Some (-1, s1)
      | Some (temp, s2) \<Rightarrow>
          let remainder = (word_of_nat temp :: size_t) mod 16;
              sz = init_padding remainder
          in (case mem_sbrk s2 sz of
                None \<Rightarrow> Some (-1, s2)
              | Some (pad, s3) \<Rightarrow>
             (case mem_sbrk s3 WSIZE of
                None \<Rightarrow> None
              | Some (start, s4) \<Rightarrow>
                  let s5 = s4\<lparr>heap_start := start, heap_epilogue := 0\<rparr>;
                      s6 = PUT s5 0 USED;
                      s7 = s6\<lparr>last_blk := None\<rparr>
                  in Some (0, s7\<lparr>segregated_list :=
                                   replicate (nat N_BUCKETS) (Some (-1))\<rparr>)))))"

subsection \<open>Free lists\<close>

text \<open>
  \<open>find_bucket\<close>: the \<open>do ... while\<close> loop, started at boundary 16 and index 0. The
  \<open>assert\<close> is a branch of its own: \<open>None\<close> when it fails.
\<close>

function find_bucket_loop :: "size_t \<Rightarrow> size_t \<Rightarrow> int \<Rightarrow> int option" where
  "find_bucket_loop sz boundary index =
     (if sz \<le> boundary
      then (if sz \<le> boundary \<and> sz > drop_bit 1 boundary then Some index else None)
      else if index + 1 < N_BUCKETS - 1
           then find_bucket_loop sz (push_bit 1 boundary) (index + 1)
           else Some (N_BUCKETS - 1))"
  by pat_completeness auto
termination
  by (relation "measure (\<lambda>(sz, boundary, index). nat (N_BUCKETS - index))")
     (auto simp: N_BUCKETS_def)

definition find_bucket :: "word_t \<Rightarrow> int option" where
  "find_bucket words = find_bucket_loop (scast words * WSIZE) 16 0"


text \<open>
  The free-list links are 32-bit signed word offsets from \<open>heap_start\<close>. Binding a pointer
  in the option monad is a dereference: it does not return on \<open>NULL\<close>, and neither does
  the pointer difference \<open>NULL - heap_start\<close>.
\<close>

definition set_free_list_prev :: "heap \<Rightarrow> int \<Rightarrow> ptr \<Rightarrow> heap option" where
  "set_free_list_prev s bt free_prev =
     do { p \<leftarrow> free_prev; Some (PUT s (bt + 2) (word_of_int p)) }"

definition set_free_list_next :: "heap \<Rightarrow> int \<Rightarrow> ptr \<Rightarrow> heap option" where
  "set_free_list_next s bt free_next =
     do { p \<leftarrow> free_next; Some (PUT s (bt + 1) (word_of_int p)) }"

definition get_free_list_prev :: "heap \<Rightarrow> int \<Rightarrow> ptr" where
  "get_free_list_prev s bt =
     (if sint (mem s (bt + 2)) < 0 then None else Some (sint (mem s (bt + 2))))"

definition get_free_list_next :: "heap \<Rightarrow> int \<Rightarrow> ptr" where
  "get_free_list_next s bt =
     (if sint (mem s (bt + 1)) < 0 then None else Some (sint (mem s (bt + 1))))"

definition free_list_append :: "heap \<Rightarrow> int \<Rightarrow> heap option" where
  "free_list_append s bt =
     do {
       index \<leftarrow> find_bucket (bt_size s bt);
       s1 \<leftarrow> set_free_list_prev s bt (Some (-1));
       s2 \<leftarrow> set_free_list_next s1 bt (segregated_list s1 ! nat index);
       let s3 = s2\<lparr>segregated_list := (segregated_list s2)[nat index := Some bt]\<rparr>;
       case get_free_list_next s3 bt of
         None \<Rightarrow> Some s3
       | Some n \<Rightarrow> set_free_list_prev s3 n (Some bt)
     }"

definition free_list_delete :: "heap \<Rightarrow> int \<Rightarrow> heap option" where
  "free_list_delete s bt =
     do {
       index \<leftarrow> find_bucket (bt_size s bt);
       if segregated_list s ! nat index = Some bt \<and> get_free_list_next s bt = None
       then Some (s\<lparr>segregated_list := (segregated_list s)[nat index := Some (-1)]\<rparr>)
       else if segregated_list s ! nat index = Some bt
       then do {
         let s1 = s\<lparr>segregated_list :=
                      (segregated_list s)[nat index := get_free_list_next s bt]\<rparr>;
         head \<leftarrow> segregated_list s1 ! nat index;
         set_free_list_prev s1 head (Some (-1))
       }
       else if get_free_list_next s bt \<noteq> None
       then do {
         p \<leftarrow> get_free_list_prev s bt;
         s1 \<leftarrow> set_free_list_next s p (get_free_list_next s bt);
         n \<leftarrow> get_free_list_next s1 bt;
         set_free_list_prev s1 n (get_free_list_prev s1 bt)
       }
       else do {
         p \<leftarrow> get_free_list_prev s bt;
         set_free_list_next s p (Some (-1))
       }
     }"

subsection \<open>Coalescing, heap extension and placement\<close>

definition coalesce :: "heap \<Rightarrow> int \<Rightarrow> (int \<times> heap) option" where
  "coalesce s bt =
     (let prev = bt_prev s bt;
          next = bt_next s bt;
          prev_used = (case prev of Some p \<Rightarrow> bt_used s p | None \<Rightarrow> 1);
          next_used = (case next of Some n \<Rightarrow> bt_used s n | None \<Rightarrow> 1);
          words = bt_size s bt;
          is_change = (Some bt = last_blk s \<or> (next = last_blk s \<and> next_used = 0))
      in do {
        (words1, s1) \<leftarrow>
          (if next_used = 0
           then do { n \<leftarrow> next;
                     s' \<leftarrow> free_list_delete s n;
                     Some (words + bt_size s n, s') }
           else Some (words, s));
        (words2, s2, bt2) \<leftarrow>
          (if prev_used = 0
           then do { p \<leftarrow> prev;
                     s' \<leftarrow> free_list_delete s1 p;
                     Some (words1 + bt_size s1 p, s', p) }
           else Some (words1, s1, bt));
        s3 \<leftarrow> free_list_append (bt_make s2 bt2 words2 FREE) bt2;
        Some (bt2, s3\<lparr>last_blk := (if is_change then Some bt2 else last_blk s3)\<rparr>)
      })"

text \<open>
  \<open>extend_heap\<close> returns \<open>NULL\<close> when the provider fails. Its \<open>assert\<close> compares the byte
  address of the new epilogue, \<open>heap_start + 4 * heap_epilogue\<close>, with 12 modulo 16.
\<close>

definition extend_heap :: "heap \<Rightarrow> size_t \<Rightarrow> (ptr \<times> heap) option" where
  "extend_heap s sz =
     (case mem_sbrk s sz of
        None \<Rightarrow> Some (None, s)
      | Some (old_brk, s1) \<Rightarrow>
          let bt = heap_epilogue s1;
              flags = (case last_blk s1 of
                         None \<Rightarrow> 0
                       | Some l \<Rightarrow> if bt_used s1 l = 0 then PREVFREE else 0) OR FREE;
              s2 = bt_make s1 bt (ucast (sz div WSIZE)) flags;
              s3 = s2\<lparr>last_blk := Some bt\<rparr>;
              s4 = s3\<lparr>heap_epilogue := bt_footer s3 bt + 1\<rparr>;
              s5 = PUT s4 (heap_epilogue s4) (0 OR USED)
          in if (int (heap_start s5) + 4 * heap_epilogue s5) mod 16 = 12
             then do { (b, s6) \<leftarrow> coalesce s5 bt; Some (Some b, s6) }
             else None)"

definition place :: "heap \<Rightarrow> int \<Rightarrow> word_t \<Rightarrow> heap option" where
  "place s bt words_needed =
     do {
       let free_block_words = bt_size s bt;
       s1 \<leftarrow> free_list_delete s bt;
       if ALIGNMENT \<le> sint (free_block_words - words_needed)
       then do {
         let s2 = bt_make s1 bt words_needed (USED OR bt_get_prevfree s1 bt);
         remaining_block \<leftarrow> bt_next s2 bt;
         let s3 = bt_make s2 remaining_block (free_block_words - words_needed) FREE;
         s4 \<leftarrow> free_list_append s3 remaining_block;
         Some (s4\<lparr>last_blk := (if last_blk s4 = Some bt then Some remaining_block
                                else last_blk s4)\<rparr>)
       }
       else Some (bt_make s1 bt free_block_words USED)
     }"

subsection \<open>Searching the buckets\<close>

text \<open>
  A read of \<open>segregated_list[index]\<close>. \<open>find_fit\<close> is the only function that indexes the
  table with anything but a result of \<open>find_bucket\<close>, and the only index outside the table
  that it reaches is \<open>N_BUCKETS\<close>: the eight bytes at \<open>table_base + 8 * N_BUCKETS\<close>. The
  heap begins \<open>gap\<close> bytes behind the table, where \<open>gap\<close> is the padding of \<open>mm_init\<close>.
  When the padding is shorter than a pointer the eight bytes overlap the heap: the first
  \<open>gap\<close> of them are padding and the others are the first bytes of the heap (the words
  \<open>mem s 0\<close> and \<open>mem s 1\<close>), in the little-endian byte order of the target. \<open>past_raw\<close>
  is the 64-bit value that the read yields.
\<close>

definition past_raw :: "heap \<Rightarrow> size_t" where
  "past_raw s =
     (let gap = heap_start s - (table_base s + 8 * nat N_BUCKETS)
      in if 8 \<le> gap then past_table s
         else (past_table s AND mask (8 * gap)) OR
              push_bit (8 * gap) (ucast (mem s 0) OR push_bit 32 (ucast (mem s 1))))"

text \<open>
  The pointer that a 64-bit value is: \<open>NULL\<close> when it is zero, and the word offset from
  \<open>heap_start\<close> when it lies a whole number of words from it. Any other value is no
  \<open>word_t *\<close> that the C program may subtract from \<open>heap_start\<close> or dereference, as
  \<open>find_fit\<close> does with what it reads: the outer \<open>None\<close>.
\<close>

definition raw_ptr :: "heap \<Rightarrow> size_t \<Rightarrow> ptr option" where
  "raw_ptr s raw =
     (if raw = 0 then Some None
      else if (int (unat raw) - int (heap_start s)) mod 4 = 0
      then Some (Some ((int (unat raw) - int (heap_start s)) div 4))
      else None)"

definition seg_read :: "heap \<Rightarrow> int \<Rightarrow> ptr option" where
  "seg_read s index =
     (if index < N_BUCKETS then Some (segregated_list s ! nat index)
      else raw_ptr s (past_raw s))"

text \<open>
  The loop that skips empty buckets evaluates \<open>segregated_list[index] - heap_start == -1\<close>
  before \<open>index < N_BUCKETS\<close>. It returns, next to the index at which it stops, the indices
  at which it has read the table, in order.
\<close>

function skip_empty :: "heap \<Rightarrow> int \<Rightarrow> int list \<Rightarrow> (int \<times> int list) option" where
  "skip_empty s index reads =
     (case seg_read s index of
        None \<Rightarrow> None
      | Some p \<Rightarrow>
          if p = Some (-1) \<and> index < N_BUCKETS
          then skip_empty s (index + 1) (reads @ [index])
          else Some (index, reads @ [index]))"
  by pat_completeness auto
termination
  by (relation "measure (\<lambda>(s, index, reads). nat (N_BUCKETS - index))") auto

declare skip_empty.simps [simp del]

text \<open>The walk through one bucket; it need not end when the list is cyclic.\<close>

partial_function (option) find_fit_walk :: "heap \<Rightarrow> word_t \<Rightarrow> ptr \<Rightarrow> ptr option" where
  "find_fit_walk s words bt =
     (case bt of
        None \<Rightarrow> Some None
      | Some b \<Rightarrow>
          if sint words \<le> sint (bt_size s b) then Some (Some b)
          else find_fit_walk s words (get_free_list_next s b))"

declare find_fit_walk.simps [code]

function find_fit_loop :: "heap \<Rightarrow> word_t \<Rightarrow> int \<Rightarrow> int list \<Rightarrow> (ptr \<times> int list) option" where
  "find_fit_loop s words index reads =
     (case skip_empty s index reads of
        None \<Rightarrow> None
      | Some (index1, reads1) \<Rightarrow>
          (case seg_read s index1 of
             None \<Rightarrow> None
           | Some bt \<Rightarrow>
               (case find_fit_walk s words bt of
                  None \<Rightarrow> None
                | Some (Some b) \<Rightarrow> Some (Some b, reads1 @ [index1])
                | Some None \<Rightarrow>
                    if index1 + 1 < N_BUCKETS
                    then find_fit_loop s words (index1 + 1) (reads1 @ [index1])
                    else Some (None, reads1 @ [index1]))))"
  by pat_completeness auto
termination
proof (relation "measure (\<lambda>(s, words, index, reads). nat (N_BUCKETS - index))")
  fix s :: heap and words :: word_t and index x :: int and reads y :: "int list"
    and x2 :: "int \<times> int list"
  assume skip: "skip_empty s index reads = Some x2" "(x, y) = x2" and less: "x + 1 < N_BUCKETS"
  have ge: "skip_empty s i rs = Some (i1, rs1) \<Longrightarrow> i \<le> i1" for i rs i1 rs1
  proof (induction s i rs arbitrary: i1 rs1 rule: skip_empty.induct)
    case (1 s i rs)
    from "1.prems" obtain p where p: "seg_read s i = Some p"
      by (subst (asm) skip_empty.simps) (auto split: option.splits)
    show ?case
    proof (cases "p = Some (-1) \<and> i < N_BUCKETS")
      case True
      with "1.prems" p have "skip_empty s (i + 1) (rs @ [i]) = Some (i1, rs1)"
        by (subst (asm) skip_empty.simps) simp
      with True p "1.IH" have "i + 1 \<le> i1"
        by blast
      then show ?thesis by simp
    next
      case False
      with "1.prems" p show ?thesis
        by (subst (asm) skip_empty.simps) auto
    qed
  qed
  from skip have "index \<le> x"
    using ge [of index reads x y] by simp
  with less
  show "((s, words, x + 1, y @ [x]), (s, words, index, reads))
          \<in> measure (\<lambda>(s, words, index, reads). nat (N_BUCKETS - index))"
    by simp
qed simp

declare find_fit_loop.simps [simp del]

text \<open>
  \<open>find_fit\<close> returns, next to its result, the indices at which it has read the table, in
  order.
\<close>

definition find_fit :: "heap \<Rightarrow> word_t \<Rightarrow> (ptr \<times> int list) option" where
  "find_fit s words = do { index \<leftarrow> find_bucket words; find_fit_loop s words index [] }"

subsection \<open>The public operations\<close>

text \<open>
  A payload pointer is the word offset of the payload. \<open>malloc\<close>, \<open>realloc\<close> and \<open>calloc\<close>
  return the C result (\<open>None\<close> for \<open>NULL\<close>) with the new state.
\<close>

definition malloc :: "heap \<Rightarrow> size_t \<Rightarrow> (ptr \<times> heap) option" where
  "malloc s sz =
     (if sz = 0 then Some (None, s)
      else let sz1 = round_up (WSIZE + sz);
               words = (ucast (sz1 div WSIZE) :: word_t)
           in do {
             (fit, reads) \<leftarrow> find_fit s words;
             case fit of
               Some bt \<Rightarrow> do { s1 \<leftarrow> place s bt words; Some (Some (bt + 1), s1) }
             | None \<Rightarrow>
                 let needed = (case last_blk s of
                                 None \<Rightarrow> sz1
                               | Some l \<Rightarrow> if bt_used s l = 0
                                           then sz1 - scast (bt_size s l) * WSIZE
                                           else sz1)
                 in do {
                   (ext, s1) \<leftarrow> extend_heap s needed;
                   case ext of
                     None \<Rightarrow> Some (None, s1)
                   | Some bt \<Rightarrow> do { s2 \<leftarrow> place s1 bt words; Some (Some (bt + 1), s2) }
                 }
           })"

definition free :: "heap \<Rightarrow> ptr \<Rightarrow> heap option" where
  "free s ptr =
     (case ptr of
        None \<Rightarrow> Some s
      | Some p \<Rightarrow>
          let bt = p - 1;
              flags = FREE OR bt_get_prevfree s bt;
              s1 = bt_make s bt (bt_size s bt) flags
          in if bt_get_prevfree s1 bt \<noteq> 0 \<or>
                (case bt_next s1 bt of None \<Rightarrow> False | Some n \<Rightarrow> bt_used s1 n \<noteq> 0)
             then map_option snd (coalesce s1 bt)
             else free_list_append s1 bt)"

text \<open>
  Modelled from the spec: \<open>memcpy\<close> and \<open>memset\<close> come from the C library, and the
  memory they may touch is what the provider has granted. By the spec's contract the heap
  is the bytes below the break, so a range of \<open>n\<close> bytes at the word offset \<open>p\<close> lies in
  the heap when it starts at or above \<open>heap_start\<close> and ends at or below \<open>brk\<close>. A call on a
  range that leaves the heap overruns the memory of the program and has no defined result:
  \<open>None\<close>.
\<close>

definition in_heap :: "heap \<Rightarrow> int \<Rightarrow> size_t \<Rightarrow> bool" where
  "in_heap s p n \<longleftrightarrow> 0 \<le> p \<and> int (heap_start s) + 4 * p + int (unat n) \<le> int (brk s)"

text \<open>
  \<open>memcpy\<close> is only called with byte counts that are multiples of the word size; it copies
  \<open>n div 4\<close> words. Source and destination must not overlap.
\<close>

definition memcpy :: "heap \<Rightarrow> int \<Rightarrow> int \<Rightarrow> size_t \<Rightarrow> heap option" where
  "memcpy s dst src n =
     (if in_heap s dst n \<and> in_heap s src n \<and>
         (dst + int (unat n div 4) \<le> src \<or> src + int (unat n div 4) \<le> dst)
      then Some (s\<lparr>mem := (\<lambda>k. if dst \<le> k \<and> k < dst + int (unat n div 4)
                            then mem s (src + (k - dst)) else mem s k)\<rparr>)
      else None)"

text \<open>
  \<open>memset\<close> to zero: whole words first, then the low-order bytes of the word in which the
  range ends (the byte order of the target is little-endian).
\<close>

definition zeroed :: "heap \<Rightarrow> int \<Rightarrow> size_t \<Rightarrow> int \<Rightarrow> word_t" where
  "zeroed s dst n =
     (\<lambda>k. if dst \<le> k \<and> k < dst + int (unat n div 4) then 0
          else if k = dst + int (unat n div 4)
          then mem s k AND NOT (mask (8 * (unat n mod 4)))
          else mem s k)"

definition memset_zero :: "heap \<Rightarrow> int \<Rightarrow> size_t \<Rightarrow> heap option" where
  "memset_zero s dst n = (if in_heap s dst n then Some (s\<lparr>mem := zeroed s dst n\<rparr>) else None)"

definition realloc :: "heap \<Rightarrow> ptr \<Rightarrow> size_t \<Rightarrow> (ptr \<times> heap) option" where
  "realloc s old_ptr sz =
     (if sz = 0 then map_option (Pair None) (free s old_ptr)
      else case old_ptr of
        None \<Rightarrow> malloc s sz
      | Some old \<Rightarrow>
          let bt = old - 1
          in do {
            (new_ptr, s1) \<leftarrow> malloc s sz;
            case new_ptr of
              None \<Rightarrow> Some (None, s1)
            | Some new \<Rightarrow>
                let free_size = (scast (bt_size s1 (new - 1)) :: size_t) * WSIZE;
                    old_size = (scast (bt_size s1 bt) :: size_t) * WSIZE
                in do {
                  s2 \<leftarrow> (if free_size > old_size
                         then memcpy s1 new old (old_size - WSIZE)
                         else memcpy s1 new old (free_size - WSIZE));
                  s3 \<leftarrow> free s2 (Some old);
                  Some (Some new, s3)
                }
          })"

definition calloc :: "heap \<Rightarrow> size_t \<Rightarrow> size_t \<Rightarrow> (ptr \<times> heap) option" where
  "calloc s nmemb sz =
     (let bytes = nmemb * sz
      in do {
        (new_ptr, s1) \<leftarrow> malloc s bytes;
        case new_ptr of
          None \<Rightarrow> Some (None, s1)
        | Some new \<Rightarrow> do { s2 \<leftarrow> memset_zero s1 new bytes; Some (Some new, s2) }
      })"

subsection \<open>The bucket index as the specification words it\<close>

text \<open>
  This definition follows the specification, not the code: convert the size to bytes, start
  with boundary 16 at index 0 and, while the size exceeds the boundary and the index is below
  \<open>N - 1\<close>, double the boundary and increment the index.
\<close>

function bucket_of_loop :: "nat \<Rightarrow> nat \<Rightarrow> nat \<Rightarrow> nat" where
  "bucket_of_loop bytes boundary index =
     (if boundary < bytes \<and> index < nat N_BUCKETS - 1
      then bucket_of_loop bytes (2 * boundary) (index + 1)
      else index)"
  by pat_completeness auto
termination
  by (relation "measure (\<lambda>(bytes, boundary, index). nat N_BUCKETS - 1 - index)") auto

declare bucket_of_loop.simps [simp del]

definition bucket_of :: "nat \<Rightarrow> nat" where
  "bucket_of words = bucket_of_loop (4 * words) 16 0"



subsection \<open>Concrete heaps\<close>

text \<open>
  \<open>mem_of xs\<close> is the memory that holds the words \<open>xs\<close> from \<open>heap_start\<close> on and zero
  elsewhere. \<open>env0\<close> is a provider state before \<open>mm_init\<close>: zeroed memory, the break at
  4096 and room up to 8192. \<open>env13\<close> differs in the break, which is 13 modulo 16.
\<close>

definition mem_of :: "word_t list \<Rightarrow> int \<Rightarrow> word_t" where
  "mem_of xs = (\<lambda>k. if 0 \<le> k \<and> k < int (length xs) then xs ! nat k else 0)"

definition empty_table :: "ptr list" where
  "empty_table = [Some (-1), Some (-1), Some (-1), Some (-1), Some (-1),
                  Some (-1), Some (-1), Some (-1), Some (-1), Some (-1)]"

definition env0 :: heap where
  "env0 = \<lparr>mem = mem_of [0, 0, 0, 0, 0, 0, 0, 0, 0, 0, 0, 0], heap_epilogue = 0,
            last_blk = None, segregated_list = [], table_base = 0, past_table = 0,
            heap_start = 0,
            brk = 4096, brk_limit = 8192\<rparr>"

definition env13 :: heap where
  "env13 = env0\<lparr>brk := 4109\<rparr>"

text \<open>
  \<open>fresh\<close> is the heap that \<open>mm_init\<close> makes of \<open>env0\<close>: the table at 4096, twelve bytes of
  padding behind it, and the epilogue as the only word of the heap, at 4188.
\<close>

definition fresh :: heap where
  "fresh = \<lparr>mem = mem_of [1, 0, 0, 0, 0, 0, 0, 0, 0, 0, 0, 0], heap_epilogue = 0,
             last_blk = None, segregated_list = empty_table, table_base = 4096,
             past_table = 0, heap_start = 4188, brk = 4192, brk_limit = 8192\<rparr>"


section \<open>Properties\<close>

subsection \<open>Size classes\<close>

declare find_bucket_loop.simps [simp del]

lemma fbl_hit: "sz \<le> b \<Longrightarrow> b div 2 < sz \<Longrightarrow> find_bucket_loop sz b i = Some i"
  by (subst find_bucket_loop.simps) (simp add: drop_bit_eq_div)

lemma fbl_assert: "sz \<le> b \<Longrightarrow> \<not> b div 2 < sz \<Longrightarrow> find_bucket_loop sz b i = None"
  by (subst find_bucket_loop.simps) (simp add: drop_bit_eq_div)

lemma fbl_step: "\<not> sz \<le> b \<Longrightarrow> i < 8 \<Longrightarrow> find_bucket_loop sz b i = find_bucket_loop sz (2 * b) (i + 1)"
  by (subst find_bucket_loop.simps) (simp add: push_bit_eq_mult N_BUCKETS_def mult.commute)

lemma fbl_last: "\<not> sz \<le> b \<Longrightarrow> \<not> i < 8 \<Longrightarrow> find_bucket_loop sz b i = Some 9"
  by (subst find_bucket_loop.simps) (simp add: N_BUCKETS_def)

lemma bol_step: "b < n \<Longrightarrow> i < 9 \<Longrightarrow> bucket_of_loop n b i = bucket_of_loop n (2 * b) (i + 1)"
  by (subst bucket_of_loop.simps) (simp add: N_BUCKETS_def)

lemma bol_stop: "\<not> (b < n \<and> i < 9) \<Longrightarrow> bucket_of_loop n b i = i"
  by (subst bucket_of_loop.simps) (auto simp: N_BUCKETS_def)

lemma bol_unfold:
  "bucket_of_loop n 16 0 =
     (if n \<le> 16 then 0 else if n \<le> 32 then 1 else if n \<le> 64 then 2
      else if n \<le> 128 then 3 else if n \<le> 256 then 4 else if n \<le> 512 then 5
      else if n \<le> 1024 then 6 else if n \<le> 2048 then 7 else if n \<le> 4096 then 8
      else 9)"
  by (simp add: bol_step bol_stop)


lemma find_bucket_loop_refines:
  assumes "unat b = 16 * 2 ^ i" and "i \<le> 8" and "unat b div 2 < unat sz"
  shows "find_bucket_loop sz b (int i) = Some (int (bucket_of_loop (unat sz) (unat b) i))"
  using assms
proof (induction "8 - i" arbitrary: i b)
  case 0
  then have i: "i = 8" by simp
  show ?case
  proof (cases "sz \<le> b")
    case True
    then have "\<not> unat b < unat sz"
      by (simp add: word_le_nat_alt)
    moreover have "b div 2 < sz"
      using "0.prems"(3) by (simp add: word_less_nat_alt unat_div)
    ultimately show ?thesis
      using True by (simp add: fbl_hit bol_stop)
  next
    case False
    then have less: "unat b < unat sz"
      by (simp add: word_le_nat_alt)
    have "bucket_of_loop (unat sz) (unat b) 8 = bucket_of_loop (unat sz) (2 * unat b) 9"
      using less by (simp add: bol_step)
    also have "\<dots> = 9"
      by (simp add: bol_stop)
    finally show ?thesis
      using False i by (simp add: fbl_last)
  qed
next
  case (Suc k)
  then have i: "i < 8" by simp
  show ?case
  proof (cases "sz \<le> b")
    case True
    then have "\<not> unat b < unat sz"
      by (simp add: word_le_nat_alt)
    moreover have "b div 2 < sz"
      using Suc.prems(3) by (simp add: word_less_nat_alt unat_div)
    ultimately show ?thesis
      using True by (simp add: fbl_hit bol_stop)
  next
    case False
    then have less: "unat b < unat sz"
      by (simp add: word_le_nat_alt)
    have "(16::nat) * 2 ^ i \<le> 16 * 2 ^ 8"
      using i by (intro mult_left_mono power_increasing) simp_all
    then have small: "unat b \<le> 4096"
      using Suc.prems(1) by simp
    then have double: "unat (2 * b) = 2 * unat b"
      by (simp add: unat_word_ariths)
    have "find_bucket_loop sz (2 * b) (int (i + 1)) =
            Some (int (bucket_of_loop (unat sz) (unat (2 * b)) (i + 1)))"
    proof (rule Suc.hyps(1))
      show "k = 8 - (i + 1)" using Suc.hyps(2) by simp
      show "unat (2 * b) = 16 * 2 ^ (i + 1)" using double Suc.prems(1) by simp
      show "i + 1 \<le> 8" using i by simp
      show "unat (2 * b) div 2 < unat sz" using double less by simp
    qed
    moreover have "find_bucket_loop sz b (int i) = find_bucket_loop sz (2 * b) (int i + 1)"
      using False i by (simp add: fbl_step)
    moreover have "bucket_of_loop (unat sz) (unat b) i =
                     bucket_of_loop (unat sz) (2 * unat b) (i + 1)"
      using less i by (simp add: bol_step)
    ultimately show ?thesis
      using double by (simp add: add.commute)
  qed
qed

lemma bytes_of_words:
  assumes "0 \<le> sint (s :: word_t)"
  shows "unat (scast s * WSIZE :: size_t) = 4 * nat (sint s)"
proof -
  have lt: "sint s < 2 ^ 31"
    using sint_lt [of s] by simp
  have "(scast s :: size_t) = word_of_int (sint s)"
    by (fact scast_eq)
  then have "scast s * WSIZE = (word_of_int (sint s * 4) :: size_t)"
    by (simp add: WSIZE_def)
  then have "uint (scast s * WSIZE :: size_t) = (sint s * 4) mod 2 ^ 64"
    by (simp only: uint_word_of_int) simp
  also have "\<dots> = sint s * 4"
    using assms lt by (intro mod_pos_pos_trivial) simp_all
  finally have "uint (scast s * WSIZE :: size_t) = sint s * 4" .
  then have "int (unat (scast s * WSIZE :: size_t)) = int (4 * nat (sint s))"
    using assms by simp
  then show ?thesis
    by (simp only: of_nat_eq_iff)
qed

lemma find_bucket_refines:
  assumes "2 < sint s"
  shows "find_bucket s = Some (int (bucket_of (nat (sint s))))"
proof -
  have bytes: "unat (scast s * WSIZE :: size_t) = 4 * nat (sint s)"
    using assms by (simp add: bytes_of_words)
  have "find_bucket_loop (scast s * WSIZE) 16 (int 0) =
          Some (int (bucket_of_loop (unat (scast s * WSIZE :: size_t)) (unat (16 :: size_t)) 0))"
    by (rule find_bucket_loop_refines) (use assms bytes in simp_all)
  then show ?thesis
    by (simp add: find_bucket_def bucket_of_def bytes)
qed

text \<open>
  Claim C8. For a block size of \<open>s\<close> words, \<open>find_bucket\<close> returns the index that the
  specification's loop computes (boundary 16 at index 0, doubled while the byte size exceeds
  it and the index is below \<open>N - 1\<close>). Equivalently 16 bytes map to bucket 0, sizes in
  \<open>(2^(i+3), 2^(i+4)]\<close> bytes to bucket \<open>i\<close> for \<open>1 \<le> i \<le> 8\<close>, and sizes above 4096 bytes
  to bucket 9. Sizes of at most two words (8 bytes), which no block has, fail the \<open>assert\<close>
  of the code instead.
\<close>

theorem find_bucket_bucket_of:
  "(2 < sint s \<longrightarrow> find_bucket s = Some (int (bucket_of (nat (sint s))))) \<and>
   (4 * sint s = 16 \<longrightarrow> find_bucket s = Some 0) \<and>
   (\<forall>i::nat. 1 \<le> i \<and> i \<le> 8 \<and> 2 ^ (i + 3) < 4 * sint s \<and> 4 * sint s \<le> 2 ^ (i + 4)
       \<longrightarrow> find_bucket s = Some (int i)) \<and>
   (4096 < 4 * sint s \<longrightarrow> find_bucket s = Some 9)"
proof (intro conjI impI allI)
  assume "2 < sint s"
  then show "find_bucket s = Some (int (bucket_of (nat (sint s))))"
    by (rule find_bucket_refines)
next
  assume "4 * sint s = 16"
  then show "find_bucket s = Some 0"
    by (simp add: find_bucket_refines bucket_of_def bol_unfold)
next
  assume "4096 < 4 * sint s"
  then show "find_bucket s = Some 9"
    by (simp add: find_bucket_refines bucket_of_def bol_unfold)
next
  fix i :: nat
  assume a: "1 \<le> i \<and> i \<le> 8 \<and> 2 ^ (i + 3) < 4 * sint s \<and> 4 * sint s \<le> 2 ^ (i + 4)"
  then have "i = 1 \<or> i = 2 \<or> i = 3 \<or> i = 4 \<or> i = 5 \<or> i = 6 \<or> i = 7 \<or> i = 8"
    by arith
  with a show "find_bucket s = Some (int i)"
    by (elim disjE) (simp_all add: find_bucket_refines bucket_of_def bol_unfold, arith+)
qed

theorem find_bucket_bucket_of_witness:
  "find_bucket 4 = Some (int (bucket_of 4)) \<and> find_bucket 4 = Some 0 \<and>
   find_bucket 12 = Some 2 \<and> find_bucket 1028 = Some 9"
proof -
  have "find_bucket 4 = Some (int (bucket_of 4))"
    using find_bucket_bucket_of [of 4, THEN conjunct1] by simp
  moreover have "find_bucket 4 = Some 0"
    using find_bucket_bucket_of [of 4, THEN conjunct2, THEN conjunct1] by simp
  moreover have "find_bucket 12 = Some 2"
    using find_bucket_bucket_of [of 12, THEN conjunct2, THEN conjunct2, THEN conjunct1,
        THEN spec, of 2] by simp
  moreover have  "find_bucket 1028 = Some 9"
    using find_bucket_bucket_of [of 1028, THEN conjunct2, THEN conjunct2, THEN conjunct2]
    by simp
  ultimately show ?thesis by simp
qed

subsection \<open>Runs on a concrete heap\<close>

lemma mem_of_upd:
  "0 \<le> p \<Longrightarrow> p < int (length xs) \<Longrightarrow> (mem_of xs)(p := v) = mem_of (xs[nat p := v])"
  by (auto simp: mem_of_def fun_eq_iff nth_list_update)

lemma mem_of_app: "mem_of xs k = (if 0 \<le> k \<and> k < int (length xs) then xs ! nat k else 0)"
  by (simp add: mem_of_def)

lemma replicate10: "replicate 10 x = [x, x, x, x, x, x, x, x, x, x]"
  by (simp add: eval_nat_numeral)

lemma find_bucket_4: "find_bucket 4 = Some 0"
  by (simp add: find_bucket_def WSIZE_def find_bucket_loop.simps)

lemma find_bucket_8: "find_bucket 8 = Some 1"
  by (simp add: find_bucket_def WSIZE_def find_bucket_loop.simps N_BUCKETS_def)

lemmas run_simps =
  mm_init_def env0_def mem_sbrk_def N_BUCKETS_def ALIGNMENT_def init_padding_def WSIZE_def
  PUT_def USED_def FREE_def PREVFREE_def round_up_def bt_size_def bt_used_def
  bt_get_prevfree_def bt_clr_prevfree_def bt_set_prevfree_def bt_footer_def bt_next_def
  bt_prev_def bt_make_def set_free_list_prev_def set_free_list_next_def
  get_free_list_prev_def get_free_list_next_def free_list_append_def free_list_delete_def
  coalesce_def extend_heap_def place_def past_raw_def raw_ptr_def seg_read_def find_fit_def
  malloc_def free_def
  skip_empty.simps find_fit_loop.simps find_fit_walk.simps mem_of_upd mem_of_app Let_def
  empty_table_def replicate10 find_bucket_4 find_bucket_8

text \<open>
  Claim C1, at a heap where the code departs from it. After \<open>mm_init\<close>, two allocations of
  one byte (blocks at offsets 0 and 4) and \<open>free\<close> of the second, \<open>free\<close> of the first
  rewrites its header as FREE; then its PREVFREE bit is clear and its next adjacent block
  (offset 4) exists and is free, so the claim has it coalesced. The guard of the code tests
  that the next block is used: the block is inserted directly, and the result differs from
  that of \<open>coalesce\<close>.
\<close>

theorem free_skips_free_successor:
  "do { (r, s0) \<leftarrow> mm_init env0;
        (a, s1) \<leftarrow> malloc s0 1;
        (b, s2) \<leftarrow> malloc s1 1;
        s3 \<leftarrow> free s2 b;
        let s3' = bt_make s3 0 (bt_size s3 0) (FREE OR bt_get_prevfree s3 0);
        Some (a, bt_get_prevfree s3' 0, bt_next s3' 0, bt_used s3' 4,
              free s3 a = free_list_append s3' 0,
              free s3 a = map_option snd (coalesce s3' 0)) }
   = Some (Some 1, 0, Some 4, 0, True, False)"
  by (simp add: run_simps)

theorem free_skips_free_successor_witness:
  "do { (r, s0) \<leftarrow> mm_init env0;
        (a, s1) \<leftarrow> malloc s0 1;
        (b, s2) \<leftarrow> malloc s1 1;
        s3 \<leftarrow> free s2 b;
        let s3' = bt_make s3 0 (bt_size s3 0) (FREE OR bt_get_prevfree s3 0);
        Some (a, bt_get_prevfree s3' 0, bt_next s3' 0, bt_used s3' 4,
              free s3 a = free_list_append s3' 0,
              free s3 a = map_option snd (coalesce s3' 0)) }
   \<noteq> None"
  using free_skips_free_successor by simp

text \<open>
  Claim C2, at a reachable heap that breaks it. After \<open>mm_init\<close>, two allocations of one
  byte, \<open>free\<close> of the second block and \<open>free\<close> of the first, the blocks at offsets 0 and 4
  are adjacent (the next block of the first is the second) and both are free, each still
  four words long.
\<close>

theorem adjacent_free_blocks_reachable:
  "do { (r, s0) \<leftarrow> mm_init env0;
        (a, s1) \<leftarrow> malloc s0 1;
        (b, s2) \<leftarrow> malloc s1 1;
        s3 \<leftarrow> free s2 b;
        s4 \<leftarrow> free s3 a;
        Some (a, b, bt_used s4 0, bt_size s4 0, bt_next s4 0, bt_used s4 4, bt_size s4 4,
              bt_next s4 4) }
   = Some (Some 1, Some 5, 0, 4, Some 4, 0, 4, None)"
  by (simp add: run_simps)

theorem adjacent_free_blocks_reachable_witness:
  "do { (r, s0) \<leftarrow> mm_init env0;
        (a, s1) \<leftarrow> malloc s0 1;
        (b, s2) \<leftarrow> malloc s1 1;
        s3 \<leftarrow> free s2 b;
        s4 \<leftarrow> free s3 a;
        Some (a, b, bt_used s4 0, bt_size s4 0, bt_next s4 0, bt_used s4 4, bt_size s4 4,
              bt_next s4 4) }
   \<noteq> None"
  using adjacent_free_blocks_reachable by simp

text \<open>
  Claim C3, at a placement where the code departs from it. After \<open>mm_init\<close>, an allocation
  of 28 bytes and its \<open>free\<close>, the heap holds one free block of 8 words, which \<open>find_fit\<close>
  returns for a request of 4 words. The difference is 4 words (16 bytes), so the claim has
  the block split. \<open>place\<close> compares the difference in words with \<open>ALIGNMENT\<close> (16): the
  block is marked used at its full 8 words, no block follows it and every bucket is empty.
\<close>

theorem place_keeps_four_spare_words:
  "do { (r, s0) \<leftarrow> mm_init env0;
        (a, s1) \<leftarrow> malloc s0 28;
        s2 \<leftarrow> free s1 a;
        (fit, reads) \<leftarrow> find_fit s2 4;
        s3 \<leftarrow> place s2 0 4;
        Some (fit, bt_used s2 0, bt_size s2 0, bt_used s3 0, bt_size s3 0, bt_next s3 0,
              segregated_list s3 = empty_table) }
   = Some (Some 0, 0, 8, 1, 8, None, True)"
  by (simp add: run_simps)

theorem place_keeps_four_spare_words_witness:
  "do { (r, s0) \<leftarrow> mm_init env0;
        (a, s1) \<leftarrow> malloc s0 28;
        s2 \<leftarrow> free s1 a;
        (fit, reads) \<leftarrow> find_fit s2 4;
        s3 \<leftarrow> place s2 0 4;
        Some (fit, bt_used s2 0, bt_size s2 0, bt_used s3 0, bt_size s3 0, bt_next s3 0,
              segregated_list s3 = empty_table) }
   \<noteq> None"
  using place_keeps_four_spare_words by simp

text \<open>
  Claim C7, at a heap that breaks it. Right after \<open>mm_init\<close> every bucket is empty;
  \<open>find_fit\<close> for 4 words reads the table at the indices 0 to 9 and then twice at index 10,
  which is \<open>N_BUCKETS\<close>: once in the test of the loop that skips empty buckets, which
  compares the entry before it compares the index, and once for the head of the list.
\<close>

theorem find_fit_reads_past_table:
  "do { (r, s0) \<leftarrow> mm_init env0;
        (fit, reads) \<leftarrow> find_fit s0 4;
        Some (fit, reads, list_all (\<lambda>i. 0 \<le> i \<and> i < N_BUCKETS) reads) }
   = Some (None, [0, 1, 2, 3, 4, 5, 6, 7, 8, 9, 10, 10], False)"
  by (simp add: run_simps)

theorem find_fit_reads_past_table_witness:
  "do { (r, s0) \<leftarrow> mm_init env0;
        (fit, reads) \<leftarrow> find_fit s0 4;
        Some (fit, reads, list_all (\<lambda>i. 0 \<le> i \<and> i < N_BUCKETS) reads) }
   \<noteq> None"
  using find_fit_reads_past_table by simp

subsection \<open>Initial alignment\<close>

lemma init_padding_small:
  "r \<le> 12 \<Longrightarrow> init_padding r < 16 \<and> (r + init_padding r) mod 16 = 12"
  by (simp add: init_padding_def) (simp add: word_le_nat_alt word_less_nat_alt unat_sub)

text \<open>
  Claim C4, at a residue that breaks it. For the residue 13 the padding that \<open>mm_init\<close>
  computes is \<open>16 - 13 - 12\<close> in \<open>size_t\<close>, that is \<open>2^64 - 9\<close>: it is not below 16, the
  address after it is 4 modulo 16 and not 12, and on a provider whose break is 13 modulo 16
  behind the table \<open>mm_init\<close> returns -1 because the provider cannot grant the padding.
\<close>

theorem init_padding_residue_13:
  "init_padding 13 = 18446744073709551607 \<and> \<not> init_padding 13 < 16 \<and>
   (13 + init_padding 13) mod 16 = 4 \<and>
   mm_init env13 = Some (-1, env13\<lparr>brk := 4189, table_base := 4109\<rparr>)"
  by (simp add: run_simps env13_def)

theorem init_padding_residue_13_witness:
  "init_padding 13 \<noteq> 3 \<and> mm_init env13 \<noteq> None"
  using init_padding_residue_13 by simp

subsection \<open>Degenerate arguments and calloc\<close>

text \<open>
  Claim C5 as stated fails: for \<open>k = 2^63 + 1\<close> and \<open>n = 2\<close> the product \<open>2^64 + 2\<close> does
  not fit in \<open>size_t\<close>, yet \<open>calloc\<close> on the heap after \<open>mm_init\<close> returns the payload of a
  used block of 16 bytes.
\<close>

theorem calloc_overflow_allocates:
  "do { (r, s0) \<leftarrow> mm_init env0;
        (p, s1) \<leftarrow> calloc s0 (2 ^ 63 + 1) 2;
        Some (p, bt_used s1 0, 4 * unat (bt_size s1 0),
              unat (2 ^ 63 + 1 :: size_t) * unat (2 :: size_t) < 2 ^ 64) }
   = Some (Some 1, 1, 16, False)"
  by (simp add: run_simps calloc_def memset_zero_def in_heap_def zeroed_def)

lemma mm_init_env0: "mm_init env0 = Some (0, fresh)"
  by (simp add: run_simps fresh_def)

lemma zeroed_whole:
  "0 \<le> j \<Longrightarrow> j < int (unat c div 4) \<Longrightarrow> zeroed s p c (p + j) = 0"
  by (simp add: zeroed_def)

lemma zeroed_tail:
  "take_bit (8 * (unat c mod 4)) (zeroed s p c (p + int (unat c div 4))) = 0"
  "drop_bit (8 * (unat c mod 4)) (zeroed s p c (p + int (unat c div 4))) =
   drop_bit (8 * (unat c mod 4)) (mem s (p + int (unat c div 4)))"
  by (auto simp add: zeroed_def take_bit_eq_mask bit_eq_iff bit_simps dest: bit_imp_le_length)

lemma zeroed_frame:
  "j < 0 \<or> int (unat c div 4) < j \<Longrightarrow> zeroed s p c (p + j) = mem s (p + j)"
  by (auto simp: zeroed_def)

text \<open>
  Claim C5 as amended: \<open>calloc\<close> makes no overflow check. Its byte count is the product in
  \<open>size_t\<close>, that is \<open>k * n\<close> modulo \<open>2^64\<close>, and it calls \<open>malloc\<close> with that count. When
  \<open>malloc\<close> returns \<open>NULL\<close>, so does \<open>calloc\<close>, in the state that \<open>malloc\<close> leaves. When
  \<open>malloc\<close> returns a payload and the count bytes from it on lie in the heap, \<open>calloc\<close>
  returns that payload with exactly those bytes set to zero: the whole words among them,
  the low-order bytes of the word in which they end, and nothing else. When they do not lie
  in the heap, \<open>memset\<close> overruns it and \<open>calloc\<close> has no result.
\<close>

theorem calloc_wraps:
  fixes k n :: size_t
  shows "unat (k * n) = unat k * unat n mod 2 ^ 64 \<and>
    (\<forall>s1. malloc s (k * n) = Some (None, s1) \<longrightarrow> calloc s k n = Some (None, s1)) \<and>
    (malloc s (k * n) = None \<longrightarrow> calloc s k n = None) \<and>
    (\<forall>p s1. malloc s (k * n) = Some (Some p, s1) \<and> \<not> in_heap s1 p (k * n) \<longrightarrow>
       calloc s k n = None) \<and>
    (\<forall>p s1. malloc s (k * n) = Some (Some p, s1) \<and> in_heap s1 p (k * n) \<longrightarrow>
       (\<exists>s2. calloc s k n = Some (Some p, s2) \<and> s2 = s1\<lparr>mem := mem s2\<rparr> \<and>
          (\<forall>j. 0 \<le> j \<and> j < int (unat (k * n) div 4) \<longrightarrow> mem s2 (p + j) = 0) \<and>
          take_bit (8 * (unat (k * n) mod 4)) (mem s2 (p + int (unat (k * n) div 4))) = 0 \<and>
          drop_bit (8 * (unat (k * n) mod 4)) (mem s2 (p + int (unat (k * n) div 4))) =
          drop_bit (8 * (unat (k * n) mod 4)) (mem s1 (p + int (unat (k * n) div 4))) \<and>
          (\<forall>j. j < 0 \<or> int (unat (k * n) div 4) < j \<longrightarrow> mem s2 (p + j) = mem s1 (p + j))))"
proof (intro conjI allI impI)
  show "unat (k * n) = unat k * unat n mod 2 ^ 64"
    by (simp add: unat_word_ariths)
next
  fix s1 assume "malloc s (k * n) = Some (None, s1)"
  then show "calloc s k n = Some (None, s1)" by (simp add: calloc_def)
next
  assume "malloc s (k * n) = None"
  then show "calloc s k n = None" by (simp add: calloc_def)
next
  fix p s1 assume "malloc s (k * n) = Some (Some p, s1) \<and> \<not> in_heap s1 p (k * n)"
  then show "calloc s k n = None" by (simp add: calloc_def memset_zero_def)
next
  fix p s1 assume a: "malloc s (k * n) = Some (Some p, s1) \<and> in_heap s1 p (k * n)"
  let ?s2 = "s1\<lparr>mem := zeroed s1 p (k * n)\<rparr>"
  from a have "calloc s k n = Some (Some p, ?s2)" by (simp add: calloc_def memset_zero_def)
  moreover have "?s2 = s1\<lparr>mem := mem ?s2\<rparr>" by simp
  moreover have "\<forall>j. 0 \<le> j \<and> j < int (unat (k * n) div 4) \<longrightarrow> mem ?s2 (p + j) = 0"
    by (simp add: zeroed_whole)
  moreover have "\<forall>j. j < 0 \<or> int (unat (k * n) div 4) < j \<longrightarrow> mem ?s2 (p + j) = mem s1 (p + j)"
    by (simp add: zeroed_frame)
  ultimately show "\<exists>s2. calloc s k n = Some (Some p, s2) \<and> s2 = s1\<lparr>mem := mem s2\<rparr> \<and>
          (\<forall>j. 0 \<le> j \<and> j < int (unat (k * n) div 4) \<longrightarrow> mem s2 (p + j) = 0) \<and>
          take_bit (8 * (unat (k * n) mod 4)) (mem s2 (p + int (unat (k * n) div 4))) = 0 \<and>
          drop_bit (8 * (unat (k * n) mod 4)) (mem s2 (p + int (unat (k * n) div 4))) =
          drop_bit (8 * (unat (k * n) mod 4)) (mem s1 (p + int (unat (k * n) div 4))) \<and>
          (\<forall>j. j < 0 \<or> int (unat (k * n) div 4) < j \<longrightarrow> mem s2 (p + j) = mem s1 (p + j))"
    using zeroed_tail [of "k * n" s1 p] by (intro exI [of _ ?s2]) simp
qed

theorem calloc_wraps_witness:
  "(\<exists>s2. calloc fresh (2 ^ 63 + 1) 2 = Some (Some 1, s2) \<and> take_bit 16 (mem s2 1) = 0) \<and>
   calloc fresh 1 (2 ^ 64 - 1) = None"
proof
  have k: "((2 ^ 63 + 1) * 2 :: size_t) = 2" by simp
  have "\<exists>s1. malloc fresh 2 = Some (Some 1, s1) \<and> in_heap s1 1 2"
    by (simp add: run_simps fresh_def in_heap_def)
  then obtain s1 where 1: "malloc fresh ((2 ^ 63 + 1) * 2) = Some (Some 1, s1)"
    "in_heap s1 1 ((2 ^ 63 + 1) * 2)" unfolding k by blast
  from calloc_wraps [of "2 ^ 63 + 1" 2 fresh] 1
  obtain s2 where 2: "calloc fresh (2 ^ 63 + 1) 2 = Some (Some 1, s2)"
    "take_bit (8 * (unat ((2 ^ 63 + 1) * 2 :: size_t) mod 4))
       (mem s2 (1 + int (unat ((2 ^ 63 + 1) * 2 :: size_t) div 4))) = 0"
    by blast
  from 2(2) have "take_bit 16 (mem s2 1) = 0" unfolding k by simp
  with 2(1) show "\<exists>s2. calloc fresh (2 ^ 63 + 1) 2 = Some (Some 1, s2) \<and> take_bit 16 (mem s2 1) = 0"
    by blast
next
  have "\<exists>s1. malloc fresh (2 ^ 64 - 1) = Some (Some 1, s1) \<and> \<not> in_heap s1 1 (2 ^ 64 - 1)"
    by (simp add: run_simps fresh_def in_heap_def)
  then obtain s1 where "malloc fresh (1 * (2 ^ 64 - 1)) = Some (Some 1, s1)"
    "\<not> in_heap s1 1 (1 * (2 ^ 64 - 1))" by auto
  with calloc_wraps [of 1 "2 ^ 64 - 1" fresh] show "calloc fresh 1 (2 ^ 64 - 1) = None"
    by blast
qed

text \<open>
  Claim C6. \<open>malloc\<close> of zero bytes returns \<open>NULL\<close> and leaves the heap as it is; \<open>free\<close> of
  \<open>NULL\<close> leaves the heap as it is; \<open>realloc\<close> with size zero frees the block and returns
  \<open>NULL\<close>; \<open>realloc\<close> of \<open>NULL\<close> is \<open>malloc\<close>.
\<close>

theorem degenerate_arguments:
  "malloc s 0 = Some (None, s) \<and>
   free s None = Some s \<and>
   realloc s p 0 = map_option (Pair None) (free s p) \<and>
   realloc s None n = malloc s n"
  by (simp add: malloc_def free_def realloc_def)

theorem degenerate_arguments_witness:
  "malloc env0 0 = Some (None, env0) \<and>
   free env0 None = Some env0 \<and>
   realloc env0 (Some 1) 0 = map_option (Pair None) (free env0 (Some 1)) \<and>
   realloc env0 None 1 = malloc env0 1"
  by (rule degenerate_arguments)

end
